theory Spec2Isabelle
  imports Complex_Main "HOL-Library.Multiset"
begin

section \<open>The ledger store (app/database.py)\<close>

text \<open>
  The tables are lists of rows in insertion order. A \<open>DateTime\<close> is a point of a
  linear time scale, here a natural number. A JSON column holds a Python value; Python's
  \<open>None\<close> is \<open>JNone\<close>, and a cell that is SQL NULL reads back as \<open>None\<close> as well.
  Every function takes the table and returns the result with the table after the call:
  the commit on success, the unchanged table after \<open>rollback\<close> and \<open>raise\<close>.
\<close>

type_synonym datetime = nat

datatype json =
    JNone
  | JBool bool
  | JInt int
  | JFloat real
  | JStr string
  | JList "json list"
  | JDict "(string \<times> json) list"

datatype db_error = IntegrityError | OperationalError | OverflowError | FileExistsError

subsection \<open>BotSettings\<close>

record BotSettings =
  setting_id :: nat
  key :: string
  setting_value :: json
  updated_at :: datetime



definition get_bot_setting :: "BotSettings list \<Rightarrow> string \<Rightarrow> json" where
  "get_bot_setting db k =
     (case find (\<lambda>r. key r = k) db of
        Some row \<Rightarrow> setting_value row
      | None \<Rightarrow> JNone)"




subsection \<open>TradeLog\<close>

text \<open>
  One field per column of the table \<open>trades\<close>. The primary key \<open>id\<close> is \<open>trade_id\<close>
  here and is never NULL; every other column is nullable. A \<open>Float\<close> cell is the real
  number it denotes: the ledger stores and returns such values and never computes with them.
\<close>

record TradeLog =
  trade_id :: string
  symbol :: "string option"
  side :: "string option"
  quantity :: "real option"
  entry_price :: "real option"
  exit_price :: "real option"
  stop_loss :: "real option"
  take_profit :: "real option"
  leverage :: "int option"
  status :: "string option"
  pnl :: "real option"
  pnl_percentage :: "real option"
  opened_at :: "datetime option"
  closed_at :: "datetime option"
  reason :: "string option"
  metadata :: json
  created_at :: "datetime option"


text \<open>
  An entry of the dictionary \<open>update_data\<close>: a column with the value for it. The
  dictionary is the list of its entries; as a dictionary it names every column at most once.
\<close>

datatype column_value =
    Col_id string
  | Col_symbol "string option"
  | Col_side "string option"
  | Col_quantity "real option"
  | Col_entry_price "real option"
  | Col_exit_price "real option"
  | Col_stop_loss "real option"
  | Col_take_profit "real option"
  | Col_leverage "int option"
  | Col_status "string option"
  | Col_pnl "real option"
  | Col_pnl_percentage "real option"
  | Col_opened_at "datetime option"
  | Col_closed_at "datetime option"
  | Col_reason "string option"
  | Col_metadata json
  | Col_created_at "datetime option"



text \<open>The SET clause of the UPDATE statement, one assignment.\<close>

fun set_column :: "column_value \<Rightarrow> TradeLog \<Rightarrow> TradeLog" where
  "set_column (Col_id v) r = r\<lparr>trade_id := v\<rparr>"
| "set_column (Col_symbol v) r = r\<lparr>symbol := v\<rparr>"
| "set_column (Col_side v) r = r\<lparr>side := v\<rparr>"
| "set_column (Col_quantity v) r = r\<lparr>quantity := v\<rparr>"
| "set_column (Col_entry_price v) r = r\<lparr>entry_price := v\<rparr>"
| "set_column (Col_exit_price v) r = r\<lparr>exit_price := v\<rparr>"
| "set_column (Col_stop_loss v) r = r\<lparr>stop_loss := v\<rparr>"
| "set_column (Col_take_profit v) r = r\<lparr>take_profit := v\<rparr>"
| "set_column (Col_leverage v) r = r\<lparr>leverage := v\<rparr>"
| "set_column (Col_status v) r = r\<lparr>status := v\<rparr>"
| "set_column (Col_pnl v) r = r\<lparr>pnl := v\<rparr>"
| "set_column (Col_pnl_percentage v) r = r\<lparr>pnl_percentage := v\<rparr>"
| "set_column (Col_opened_at v) r = r\<lparr>opened_at := v\<rparr>"
| "set_column (Col_closed_at v) r = r\<lparr>closed_at := v\<rparr>"
| "set_column (Col_reason v) r = r\<lparr>reason := v\<rparr>"
| "set_column (Col_metadata v) r = r\<lparr>metadata := v\<rparr>"
| "set_column (Col_created_at v) r = r\<lparr>created_at := v\<rparr>"

definition values_clause :: "column_value list \<Rightarrow> TradeLog \<Rightarrow> TradeLog" where
  "values_clause update_data r = fold set_column update_data r"

text \<open>
  An \<open>Integer\<close> of SQLite has 64 bits: binding a Python integer outside that range as a
  parameter of a statement raises \<open>OverflowError\<close>. The only integer that \<open>update_data\<close>
  can carry is the leverage.
\<close>

definition sqlite_integer :: "int \<Rightarrow> bool" where
  "sqlite_integer v = (- (2 ^ 63) \<le> v \<and> v < 2 ^ 63)"

fun bindable :: "column_value \<Rightarrow> bool" where
  "bindable (Col_leverage (Some v)) = sqlite_integer v"
| "bindable _ = True"

text \<open>
  \<open>update_trade\<close>: an UPDATE of the rows whose \<open>id\<close> is the argument \<open>tid\<close>, then the commit;
  the result is \<open>rowcount > 0\<close>, the number of rows the WHERE clause matched. Nothing in
  the function looks at the row before writing it. Three things make the statement fail,
  and the \<open>except\<close> branch then rolls back and raises again: an empty \<open>update_data\<close> gives
  an UPDATE with no assignment, which the database rejects; a leverage that does not fit
  an \<open>Integer\<close> cannot be bound; and an assignment to \<open>id\<close> that repeats the key of another
  row breaks the primary key.
\<close>

definition update_trade ::
  "TradeLog list \<Rightarrow> string \<Rightarrow> column_value list \<Rightarrow> (db_error + bool) \<times> TradeLog list" where
  "update_trade db tid update_data =
     (if update_data = [] then (Inl OperationalError, db)
      else if \<not> list_all bindable update_data then (Inl OverflowError, db)
      else
        let db' = map (\<lambda>r. if trade_id r = tid then values_clause update_data r else r) db;
            rowcount = length (filter (\<lambda>r. trade_id r = tid) db)
        in if distinct (map trade_id db') then (Inr (rowcount > 0), db')
           else (Inl IntegrityError, db))"

text \<open>
  \<open>get_recent_trades\<close>: \<open>ORDER BY opened_at DESC LIMIT limit\<close>. SQLite, the engine the
  module configures, sorts NULL below every value, so NULLs come last in descending order,
  and reads a negative LIMIT as no limit; the limit is bound as an \<open>Integer\<close>, so one that
  does not fit raises \<open>OverflowError\<close>. The statement names no second sort key: among
  rows with the same \<open>opened_at\<close> the answer follows the order in which the engine visits
  the rows, which the query does not fix. That order is the argument \<open>scan\<close>, an
  arrangement of the rows of the table.
\<close>

definition desc_key :: "TradeLog \<Rightarrow> nat" where
  "desc_key r = (case opened_at r of None \<Rightarrow> 0 | Some t \<Rightarrow> Suc t)"

definition order_by_desc :: "TradeLog list \<Rightarrow> TradeLog list" where
  "order_by_desc scan = rev (sort_key desc_key (rev scan))"

definition get_recent_trades :: "TradeLog list \<Rightarrow> int \<Rightarrow> db_error + TradeLog list" where
  "get_recent_trades scan limit =
     (if \<not> sqlite_integer limit then Inl OverflowError
      else if limit < 0 then Inr (order_by_desc scan)
      else Inr (take (nat limit) (order_by_desc scan)))"

text \<open>A row as the constructor \<open>TradeLog(id=..., status=..., opened_at=...)\<close> builds it.\<close>

definition a_trade :: "string \<Rightarrow> string \<Rightarrow> datetime \<Rightarrow> TradeLog" where
  "a_trade tid st t =
     \<lparr>trade_id = tid, symbol = None, side = None, quantity = None, entry_price = None,
      exit_price = None, stop_loss = None, take_profit = None, leverage = None,
      status = Some st, pnl = None, pnl_percentage = None, opened_at = Some t,
      closed_at = None, reason = None, metadata = JNone, created_at = None\<rparr>"

section \<open>Configuration (app/config.py)\<close>

text \<open>
  The fields of \<open>TradingConfig\<close> that depend on the environment or are read by the code
  below; the remaining fields are constants of the class. \<open>os.getenv\<close> is a partial map
  from names to strings. Python's \<open>int\<close> and \<open>float\<close> on a string are parameters:
  \<open>None\<close> where they raise \<open>ValueError\<close>.
\<close>

record TradingConfig =
  BYBIT_TESTNET :: bool
  BYBIT_API_KEY :: string
  BYBIT_API_SECRET :: string
  SYMBOL :: string
  LEVERAGE :: int
  MAX_POSITION_SIZE :: real
  STOP_LOSS_PCT :: real
  TAKE_PROFIT_PCT :: real
  TELEGRAM_BOT_TOKEN :: string
  TELEGRAM_CHAT_ID :: string
  DATABASE_URL :: string
  RENDER :: bool

type_synonym environ = "string \<Rightarrow> string option"

definition getenv :: "environ \<Rightarrow> string \<Rightarrow> string \<Rightarrow> string" where
  "getenv env name dflt = (case env name of None \<Rightarrow> dflt | Some v \<Rightarrow> v)"

text \<open>
  \<open>s.lower() == 'true'\<close>. Lowering the ASCII letters decides the comparison: no other
  character becomes one of the letters of \<open>true\<close>.
\<close>

definition ascii_lower :: "char \<Rightarrow> char" where
  "ascii_lower c =
     (if 65 \<le> (of_char c :: nat) \<and> (of_char c :: nat) \<le> 90
      then char_of (of_char c + 32 :: nat) else c)"

definition lower_is_true :: "string \<Rightarrow> bool" where
  "lower_is_true s = (map ascii_lower s = ''true'')"

text \<open>The class body, evaluated when the module is imported.\<close>

definition class_defaults :: "environ \<Rightarrow> TradingConfig" where
  "class_defaults env =
     \<lparr>BYBIT_TESTNET = lower_is_true (getenv env ''BYBIT_TESTNET'' ''true''),
      BYBIT_API_KEY = '''',
      BYBIT_API_SECRET = '''',
      SYMBOL = ''BTCUSDT'',
      LEVERAGE = 5,
      MAX_POSITION_SIZE = 1 / 1000,
      STOP_LOSS_PCT = 3 / 10,
      TAKE_PROFIT_PCT = 2 / 10,
      TELEGRAM_BOT_TOKEN = '''',
      TELEGRAM_CHAT_ID = '''',
      DATABASE_URL = ''sqlite:///./data/trades.db'',
      RENDER = lower_is_true (getenv env ''RENDER'' ''false'')\<rparr>"

text \<open>\<open>int(os.getenv(name, default))\<close> and \<open>float(os.getenv(name, default))\<close>.\<close>

definition getenv_int :: "(string \<Rightarrow> int option) \<Rightarrow> environ \<Rightarrow> string \<Rightarrow> int \<Rightarrow> int option" where
  "getenv_int py_int env name dflt = (case env name of None \<Rightarrow> Some dflt | Some s \<Rightarrow> py_int s)"

definition getenv_float :: "(string \<Rightarrow> real option) \<Rightarrow> environ \<Rightarrow> string \<Rightarrow> real \<Rightarrow> real option" where
  "getenv_float py_float env name dflt = (case env name of None \<Rightarrow> Some dflt | Some s \<Rightarrow> py_float s)"

text \<open>\<open>from_env\<close>: \<open>Inl\<close> is the message of the \<open>ValueError\<close> raised by a conversion.\<close>

definition from_env ::
  "(string \<Rightarrow> int option) \<Rightarrow> (string \<Rightarrow> real option) \<Rightarrow> TradingConfig \<Rightarrow> environ
     \<Rightarrow> string + TradingConfig" where
  "from_env py_int py_float cls env =
     (let config = cls\<lparr>BYBIT_API_KEY := getenv env ''BYBIT_API_KEY'' '''',
                        BYBIT_API_SECRET := getenv env ''BYBIT_API_SECRET'' '''',
                        TELEGRAM_BOT_TOKEN := getenv env ''TELEGRAM_BOT_TOKEN'' '''',
                        TELEGRAM_CHAT_ID := getenv env ''TELEGRAM_CHAT_ID'' '''',
                        SYMBOL := getenv env ''TRADING_SYMBOL'' (SYMBOL cls)\<rparr>
      in case getenv_int py_int env ''LEVERAGE'' (LEVERAGE config) of
           None \<Rightarrow> Inl ''ValueError''
         | Some lev \<Rightarrow>
        (case getenv_float py_float env ''MAX_POSITION_SIZE'' (MAX_POSITION_SIZE config) of
           None \<Rightarrow> Inl ''ValueError''
         | Some mps \<Rightarrow>
        (case getenv_float py_float env ''STOP_LOSS_PCT'' (STOP_LOSS_PCT config) of
           None \<Rightarrow> Inl ''ValueError''
         | Some sl \<Rightarrow>
        (case getenv_float py_float env ''TAKE_PROFIT_PCT'' (TAKE_PROFIT_PCT config) of
           None \<Rightarrow> Inl ''ValueError''
         | Some tp \<Rightarrow>
             Inr (config\<lparr>LEVERAGE := lev, MAX_POSITION_SIZE := mps, STOP_LOSS_PCT := sl,
                          TAKE_PROFIT_PCT := tp,
                          DATABASE_URL := getenv env ''DATABASE_URL'' (DATABASE_URL config)\<rparr>)))))"

section \<open>Schema initialisation (app/database.py, \<open>init_db\<close>)\<close>

text \<open>
  What \<open>init_db\<close> touches: the entry \<open>data\<close> of the working directory, and the tables of
  the database that the URL names. With one of the two URLs the code spells out, the
  database is the file \<open>./data/trades.db\<close>, which SQLite opens, and creates when missing,
  only inside an existing directory; any other URL is taken to name a database that does
  not live under \<open>./data\<close>.
\<close>

datatype fs_entry = Absent | Directory | RegularFile

record disk =
  data_entry :: fs_entry
  tables :: "string list"

definition database_url :: "TradingConfig \<Rightarrow> string" where
  "database_url config =
     (if RENDER config then ''sqlite+aiosqlite:///./data/trades.db'' else DATABASE_URL config)"

definition database_in_data_dir :: "string \<Rightarrow> bool" where
  "database_in_data_dir url =
     (url = ''sqlite+aiosqlite:///./data/trades.db'' \<or> url = ''sqlite:///./data/trades.db'')"

text \<open>\<open>Base.metadata.create_all\<close>: each table of the two classes is created unless it exists.\<close>

definition create_all :: "string list \<Rightarrow> string list" where
  "create_all ts =
     fold (\<lambda>t acc. if t \<in> set acc then acc else acc @ [t]) [''trades'', ''bot_settings''] ts"

text \<open>
  \<open>init_db\<close> first opens the database and creates the tables, and only then calls
  \<open>os.makedirs("data", exist_ok=True)\<close>, which raises when \<open>data\<close> is a regular file.
  The result is the exception raised, if any, and the disk after the call.
\<close>

definition init_db :: "TradingConfig \<Rightarrow> disk \<Rightarrow> db_error option \<times> disk" where
  "init_db config d =
     (if database_in_data_dir (database_url config) \<and> data_entry d \<noteq> Directory
      then (Some OperationalError, d)
      else
        let d1 = d\<lparr>tables := create_all (tables d)\<rparr>
        in case data_entry d1 of
             RegularFile \<Rightarrow> (Some FileExistsError, d1)
           | _ \<Rightarrow> (None, d1\<lparr>data_entry := Directory\<rparr>))"

section \<open>The supervisor (app/main.py)\<close>

text \<open>
  A run of the program is the list of the things it does, in order, and how the process
  ends. The collaborators that are not part of this file (the trading engine, the Telegram
  bot, the web server, the interpreter's conversions) are given by what each of their
  calls does in the run at hand: it returns, or it raises an exception with a message.
\<close>

datatype outcome = Returns | Raises string

datatype subsystem = EngineLoop | HealthEndpoint | Notifier

datatype level = INFO | WARNING | ERROR

datatype message =
    Banner_rule
  | Starting_bot
  | Environment_line bool
  | Symbol_line string
  | Leverage_line int
  | Health_check_started int
  | Telegram_started
  | Telegram_not_configured
  | Bot_running
  | Fatal_error string
  | Missing_variables "string list"
  | Received_signal int
  | Shutting_down
  | Shutdown_complete
  | Failed_to_start string

datatype notification = Bot_started | Bot_crashed string

text \<open>
  \<open>Constructed\<close>: the constructor of the engine or of the Telegram bot has run.
  \<open>Start\<close>: the server task is created, the polling thread is started, or
  \<open>trading_engine.start()\<close> is called. \<open>Stop\<close>: a stop is delivered to a subsystem;
  the only such call in the file is \<open>trading_engine.stop()\<close>.
\<close>

datatype event =
    Log level message
  | Constructed subsystem
  | Start subsystem
  | Stop subsystem
  | Init_db
  | Send notification
  | Create_shutdown_task

text \<open>
  \<open>engine_stop\<close>: the number of turns of the event loop for which
  \<open>trading_engine.stop()\<close> stays suspended, and how it ends.
\<close>

record world =
  os_environ :: environ
  dotenv :: environ
  py_int :: "string \<Rightarrow> int option"
  py_float :: "string \<Rightarrow> real option"
  TradingEngine_init :: outcome
  TelegramBot_init :: outcome
  health_check_setup :: outcome
  init_db_outcome :: outcome
  engine_start :: outcome
  notify_started :: outcome
  notify_crashed :: outcome
  engine_stop :: "nat \<times> outcome"

datatype abrupt = SystemExit int | Exception string

record bot =
  bot_config :: TradingConfig
  health_check_port :: int

text \<open>\<open>load_dotenv()\<close>: a variable of the file is set unless the environment has it.\<close>

definition load_dotenv :: "world \<Rightarrow> environ" where
  "load_dotenv w = (\<lambda>name. case os_environ w name of Some v \<Rightarrow> Some v | None \<Rightarrow> dotenv w name)"

definition truthy :: "string option \<Rightarrow> bool" where
  "truthy v = (case v of None \<Rightarrow> False | Some s \<Rightarrow> s \<noteq> [])"

definition missing_vars :: "environ \<Rightarrow> string list" where
  "missing_vars env = filter (\<lambda>var. \<not> truthy (env var)) [''BYBIT_API_KEY'', ''BYBIT_API_SECRET'']"

text \<open>
  \<open>ScalpingBot.__init__\<close>, with \<open>_validate_config\<close> in its place: \<open>sys.exit(1)\<close> when a
  required variable is missing.
\<close>

definition ScalpingBot_init :: "world \<Rightarrow> event list \<times> (abrupt + bot)" where
  "ScalpingBot_init w =
     (let env = load_dotenv w
      in case from_env (py_int w) (py_float w) (class_defaults (os_environ w)) env of
           Inl e \<Rightarrow> ([], Inl (Exception e))
         | Inr cfg \<Rightarrow>
             if missing_vars env \<noteq> []
             then ([Log ERROR (Missing_variables (missing_vars env))], Inl (SystemExit 1))
             else
               (case TradingEngine_init w of
                  Raises e \<Rightarrow> ([], Inl (Exception e))
                | Returns \<Rightarrow>
               (case TelegramBot_init w of
                  Raises e \<Rightarrow> ([Constructed EngineLoop], Inl (Exception e))
                | Returns \<Rightarrow>
               (case getenv_int (py_int w) env ''HEALTH_CHECK_PORT'' 8080 of
                  None \<Rightarrow>
                    ([Constructed EngineLoop, Constructed Notifier], Inl (Exception ''ValueError''))
                | Some port \<Rightarrow>
                    ([Constructed EngineLoop, Constructed Notifier],
                     Inr \<lparr>bot_config = cfg, health_check_port = port\<rparr>)))))"

subsection \<open>Tasks of the event loop\<close>

text \<open>
  The main task, once \<open>run\<close> has reached its loop, sleeps for ever. A shutdown task is
  created by the signal handler; a task that has called \<open>trading_engine.stop()\<close> waits
  in it for the number of turns left. The flag of \<open>In_stop\<close> tells the main task, which
  runs \<open>shutdown\<close> from its \<open>except\<close> branch, from a task made by the signal handler.
\<close>

datatype task = Main_sleeping | Shutdown_created | In_stop bool nat

datatype step_result = Continues task | Finished | Abrupt abrupt

text \<open>
  The rest of \<open>shutdown\<close> from the \<open>await\<close> on: when the stop has returned, the log line
  and \<open>sys.exit(0)\<close>. An exception of the stop leaves the task; from the main task it
  leaves \<open>run\<close>, in any other task nobody receives it.
\<close>

definition await_stop :: "nat \<times> outcome \<Rightarrow> bool \<Rightarrow> nat \<Rightarrow> event list \<times> step_result" where
  "await_stop es is_main k =
     (case k of
        Suc j \<Rightarrow> ([], Continues (In_stop is_main j))
      | 0 \<Rightarrow>
          (case snd es of
             Returns \<Rightarrow> ([Log INFO Shutdown_complete], Abrupt (SystemExit 0))
           | Raises e \<Rightarrow> ([], if is_main then Abrupt (Exception e) else Finished)))"

text \<open>
  \<open>shutdown\<close>. The attribute \<open>trading_engine\<close> is set before the signal handlers are
  installed and before \<open>run\<close> is called, so the test \<open>hasattr\<close> succeeds.
\<close>

definition shutdown :: "nat \<times> outcome \<Rightarrow> bool \<Rightarrow> event list \<times> step_result" where
  "shutdown es is_main =
     (let (ev, r) = await_stop es is_main (fst es)
      in ([Log INFO Shutting_down, Stop EngineLoop] @ ev, r))"

definition signal_handler :: "int \<Rightarrow> event list" where
  "signal_handler signum = [Log INFO (Received_signal signum), Create_shutdown_task]"

definition notifications_configured :: "TradingConfig \<Rightarrow> bool" where
  "notifications_configured cfg = (TELEGRAM_BOT_TOKEN cfg \<noteq> [] \<and> TELEGRAM_CHAT_ID cfg \<noteq> [])"

text \<open>
  The body of the \<open>try\<close> of \<open>run\<close> up to the loop: what it does and the exception that
  ends it, if any.
\<close>

definition run_try :: "world \<Rightarrow> bot \<Rightarrow> event list \<times> string option" where
  "run_try w b =
     (let cfg = bot_config b;
          banner = [Log INFO Banner_rule, Log INFO Starting_bot,
                    Log INFO (Environment_line (BYBIT_TESTNET cfg)),
                    Log INFO (Symbol_line (SYMBOL cfg)), Log INFO (Leverage_line (LEVERAGE cfg)),
                    Log INFO Banner_rule]
      in case health_check_setup w of
           Raises e \<Rightarrow> (banner, Some e)
         | Returns \<Rightarrow>
        (let ev1 = banner @ [Start HealthEndpoint,
                             Log INFO (Health_check_started (health_check_port b)), Init_db]
         in case init_db_outcome w of
              Raises e \<Rightarrow> (ev1, Some e)
            | Returns \<Rightarrow>
           (let ev2 = ev1 @ (if TELEGRAM_BOT_TOKEN cfg \<noteq> []
                             then [Start Notifier, Log INFO Telegram_started]
                             else [Log WARNING Telegram_not_configured])
                          @ [Start EngineLoop]
            in case engine_start w of
                 Raises e \<Rightarrow> (ev2, Some e)
               | Returns \<Rightarrow>
                   if notifications_configured cfg
                   then (case notify_started w of
                           Raises e \<Rightarrow> (ev2 @ [Send Bot_started], Some e)
                         | Returns \<Rightarrow> (ev2 @ [Send Bot_started, Log INFO Bot_running], None))
                   else (ev2 @ [Log INFO Bot_running], None))))"

text \<open>\<open>run\<close>: the \<open>try\<close>, then the loop, or the \<open>except\<close> branch.\<close>

definition run :: "world \<Rightarrow> bot \<Rightarrow> event list \<times> step_result" where
  "run w b =
     (case run_try w b of
        (ev, None) \<Rightarrow> (ev, Continues Main_sleeping)
      | (ev, Some e) \<Rightarrow>
          (let ev1 = ev @ [Log ERROR (Fatal_error e)]
           in if notifications_configured (bot_config b)
              then (case notify_crashed w of
                      Raises e2 \<Rightarrow> (ev1 @ [Send (Bot_crashed (take 200 e))], Abrupt (Exception e2))
                    | Returns \<Rightarrow>
                        (let (ev2, r) = shutdown (engine_stop w) True
                         in (ev1 @ [Send (Bot_crashed (take 200 e))] @ ev2, r)))
              else (let (ev2, r) = shutdown (engine_stop w) True in (ev1 @ ev2, r))))"

subsection \<open>The event loop\<close>

definition step :: "nat \<times> outcome \<Rightarrow> task \<Rightarrow> event list \<times> step_result" where
  "step es t =
     (case t of
        Main_sleeping \<Rightarrow> ([], Continues Main_sleeping)
      | Shutdown_created \<Rightarrow> shutdown es False
      | In_stop is_main k \<Rightarrow> await_stop es is_main k)"

text \<open>
  One turn runs the tasks in the order in which they were made ready; \<open>SystemExit\<close>, or
  an exception out of the main task, ends the loop at once.
\<close>

fun run_tasks :: "nat \<times> outcome \<Rightarrow> task list \<Rightarrow> event list \<times> task list \<times> abrupt option" where
  "run_tasks es [] = ([], [], None)"
| "run_tasks es (t # ts) =
     (case step es t of
        (ev, Abrupt a) \<Rightarrow> (ev, [], Some a)
      | (ev, Finished) \<Rightarrow>
          (case run_tasks es ts of (ev2, ts', h) \<Rightarrow> (ev @ ev2, ts', h))
      | (ev, Continues t') \<Rightarrow>
          (case run_tasks es ts of (ev2, ts', h) \<Rightarrow> (ev @ ev2, t' # ts', h)))"

datatype process = Running "task list" | Stopped abrupt

text \<open>
  The schedule lists, for each turn of the loop, the signals delivered before it: the
  handler runs for each of them, then the tasks run. When the schedule is used up the
  process is still running.
\<close>

fun event_loop :: "nat \<times> outcome \<Rightarrow> task list \<Rightarrow> int list list \<Rightarrow> event list \<times> process" where
  "event_loop es tasks [] = ([], Running tasks)"
| "event_loop es tasks (signals # rest) =
     (case run_tasks es (tasks @ map (\<lambda>_. Shutdown_created) signals) of
        (ev, _, Some a) \<Rightarrow> (concat (map signal_handler signals) @ ev, Stopped a)
      | (ev, tasks', None) \<Rightarrow>
          (case event_loop es tasks' rest of
             (ev2, p) \<Rightarrow> (concat (map signal_handler signals) @ ev @ ev2, p)))"

definition asyncio_run :: "world \<Rightarrow> bot \<Rightarrow> int list list \<Rightarrow> event list \<times> process" where
  "asyncio_run w b schedule =
     (case run w b of
        (ev, Abrupt a) \<Rightarrow> (ev, Stopped a)
      | (ev, Finished) \<Rightarrow> (ev, Running [])
      | (ev, Continues t) \<Rightarrow>
          (case event_loop (engine_stop w) [t] schedule of (ev2, p) \<Rightarrow> (ev @ ev2, p)))"

datatype exit = Still_running | Exit_code int

text \<open>
  \<open>main\<close>: \<open>SystemExit\<close> is not an \<open>Exception\<close>, so it passes the \<open>except\<close> clauses and
  its code is the exit code of the process; any \<open>Exception\<close> is logged and the process
  exits with 1. Both signals are bound to \<open>signal_handler\<close>, so none of them raises
  \<open>KeyboardInterrupt\<close>.
\<close>

definition main :: "world \<Rightarrow> int list list \<Rightarrow> event list \<times> exit" where
  "main w schedule =
     (case ScalpingBot_init w of
        (ev, Inl (SystemExit n)) \<Rightarrow> (ev, Exit_code n)
      | (ev, Inl (Exception e)) \<Rightarrow> (ev @ [Log ERROR (Failed_to_start e)], Exit_code 1)
      | (ev, Inr b) \<Rightarrow>
          (case asyncio_run w b schedule of
             (ev2, Running _) \<Rightarrow> (ev @ ev2, Still_running)
           | (ev2, Stopped (SystemExit n)) \<Rightarrow> (ev @ ev2, Exit_code n)
           | (ev2, Stopped (Exception e)) \<Rightarrow>
               (ev @ ev2 @ [Log ERROR (Failed_to_start e)], Exit_code 1)))"



definition starts :: "event list \<Rightarrow> subsystem list" where
  "starts tr = concat (map (\<lambda>e. case e of Start s \<Rightarrow> [s] | Constructed s \<Rightarrow> [s] | _ \<Rightarrow> []) tr)"

text \<open>
  A run for the examples: both credentials in the environment, no \<open>.env\<close> file, no
  Telegram token, every collaborator returning, with the given behaviour of the engine
  at start and at stop.
\<close>

definition a_world :: "outcome \<Rightarrow> nat \<times> outcome \<Rightarrow> world" where
  "a_world at_start at_stop =
     \<lparr>os_environ = [''BYBIT_API_KEY'' \<mapsto> ''key'', ''BYBIT_API_SECRET'' \<mapsto> ''secret''],
      dotenv = Map.empty,
      py_int = (\<lambda>_. None),
      py_float = (\<lambda>_. None),
      TradingEngine_init = Returns,
      TelegramBot_init = Returns,
      health_check_setup = Returns,
      init_db_outcome = Returns,
      engine_start = at_start,
      notify_started = Returns,
      notify_crashed = Returns,
      engine_stop = at_stop\<rparr>"

section \<open>Properties of the settings store\<close>


















text \<open>
  C10. A key whose stored value is \<open>None\<close> and a key that has no row are read alike:
  \<open>get_bot_setting\<close> returns \<open>None\<close> for both.
\<close>

theorem get_bot_setting_none_is_absent:
  assumes "find (\<lambda>r. key r = k) db = Some row" and "setting_value row = JNone"
    and "k' \<notin> set (map key db')"
  shows "get_bot_setting db k = get_bot_setting db' k' \<and> get_bot_setting db k = JNone"
proof -
  have "find (\<lambda>r. key r = k') db' = None"
    using assms(3) by (auto simp: find_None_iff)
  then show ?thesis
    using assms(1,2) by (simp add: get_bot_setting_def)
qed

theorem get_bot_setting_none_is_absent_witness:
  "find (\<lambda>r. key r = ''flag'')
      [\<lparr>setting_id = 1, key = ''flag'', setting_value = JNone, updated_at = 5\<rparr>]
     = Some \<lparr>setting_id = 1, key = ''flag'', setting_value = JNone, updated_at = 5\<rparr> \<and>
   ''flag'' \<notin> set (map key ([] :: BotSettings list)) \<and>
   get_bot_setting [\<lparr>setting_id = 1, key = ''flag'', setting_value = JNone, updated_at = 5\<rparr>] ''flag''
     = get_bot_setting [] ''flag''"
proof -
  have a: "find (\<lambda>r. key r = ''flag'')
      [\<lparr>setting_id = 1, key = ''flag'', setting_value = JNone, updated_at = 5\<rparr>]
     = Some \<lparr>setting_id = 1, key = ''flag'', setting_value = JNone, updated_at = 5\<rparr>"
    by simp
  have b: "setting_value \<lparr>setting_id = 1, key = ''flag'', setting_value = JNone, updated_at = 5\<rparr> = JNone"
    by simp
  have c: "''flag'' \<notin> set (map key ([] :: BotSettings list))" by simp
  from get_bot_setting_none_is_absent [OF a b c] a c show ?thesis by (intro conjI) simp_all
qed

section \<open>Properties of the trade ledger\<close>









lemma update_trade_overflow:
  "update_data \<noteq> [] \<Longrightarrow> \<not> list_all bindable update_data \<Longrightarrow>
     update_trade db tid update_data = (Inl OverflowError, db)"
  by (simp add: update_trade_def)










lemma mset_order_by_desc: "mset (order_by_desc scan) = mset scan"
  by (simp add: order_by_desc_def)

lemma length_order_by_desc: "length (order_by_desc scan) = length scan"
  using mset_order_by_desc [of scan] by (metis size_mset)

lemma sorted_order_by_desc:
  "sorted_wrt (\<lambda>a b. desc_key b \<le> desc_key a) (order_by_desc scan)"
proof -
  have "sorted (map desc_key (sort_key desc_key (rev scan)))"
    by (rule sorted_sort_key)
  then have "sorted_wrt (\<lambda>a b. desc_key a \<le> desc_key b) (sort_key desc_key (rev scan))"
    by (simp add: sorted_map)
  then show ?thesis
    by (simp add: order_by_desc_def sorted_wrt_rev)
qed

lemma order_by_desc_three:
  assumes m: "mset scan = {#r1, r2, r3#}"
    and k: "desc_key r1 < desc_key r2" "desc_key r2 < desc_key r3"
  shows "order_by_desc scan = [r3, r2, r1]"
proof -
  have ne: "r1 \<noteq> r2" "r2 \<noteq> r3" "r1 \<noteq> r3"
    using k by auto
  have ms: "mset (rev scan) = {#r1, r2, r3#}"
    using m by simp
  have f: "filter (\<lambda>x. desc_key a = desc_key x) (rev scan) = filter (\<lambda>x. desc_key a = desc_key x) [r1, r2, r3]"
    if "a \<in> set [r1, r2, r3]" for a
  proof -
    have "mset (filter (\<lambda>x. desc_key a = desc_key x) (rev scan))
          = filter_mset (\<lambda>x. desc_key a = desc_key x) {#r1, r2, r3#}"
      by (simp only: mset_filter ms)
    also have "\<dots> = {#a#}"
      using that k by auto
    finally have "filter (\<lambda>x. desc_key a = desc_key x) (rev scan) = [a]"
      by (simp only: mset_single_iff)
    moreover have "filter (\<lambda>x. desc_key a = desc_key x) [r1, r2, r3] = [a]"
      using that k by auto
    ultimately show ?thesis by simp
  qed
  have "sort_key desc_key (rev scan) = [r1, r2, r3]"
  proof (rule properties_for_sort_key)
    show "mset [r1, r2, r3] = mset (rev scan)"
      using ms by simp
    show "\<And>a. a \<in> set [r1, r2, r3] \<Longrightarrow>
       filter (\<lambda>x. desc_key a = desc_key x) [r1, r2, r3] = filter (\<lambda>x. desc_key a = desc_key x) (rev scan)"
      using f by simp
    show "sorted (map desc_key [r1, r2, r3])"
      using k by simp
  qed
  then show ?thesis
    by (simp add: order_by_desc_def)
qed

lemma desc_key_less: "opened_at a = Some s \<Longrightarrow> opened_at b = Some t \<Longrightarrow> s < t \<Longrightarrow> desc_key a < desc_key b"
  by (simp add: desc_key_def)

text \<open>
  Two trades opened at the same time, \<open>a\<close> inserted before \<open>b\<close>: when the engine visits
  \<open>b\<close> first, the answer lists \<open>b\<close> before \<open>a\<close>.
\<close>

theorem get_recent_trades_ties_counterexample:
  "mset [a_trade ''b'' ''open'' 5, a_trade ''a'' ''open'' 5]
     = mset [a_trade ''a'' ''open'' 5, a_trade ''b'' ''open'' 5] \<and>
   get_recent_trades [a_trade ''b'' ''open'' 5, a_trade ''a'' ''open'' 5] 2
     = Inr [a_trade ''b'' ''open'' 5, a_trade ''a'' ''open'' 5]"
  by (simp add: get_recent_trades_def sqlite_integer_def order_by_desc_def desc_key_def a_trade_def)

lemma get_recent_trades_overflow:
  "limit < - (2 ^ 63) \<or> 2 ^ 63 \<le> limit \<Longrightarrow> get_recent_trades scan limit = Inl OverflowError"
  by (auto simp: get_recent_trades_def sqlite_integer_def)

text \<open>
  C7, as the code has it. For a limit \<open>0 \<le> n < 2^63\<close> and any order in which the engine
  visits the rows, \<open>get_recent_trades\<close> succeeds and returns \<open>min n (size of the ledger)\<close>
  rows of the ledger, in descending order of \<open>opened_at\<close>, none of them opened before a row
  that is left out; for three trades opened at times \<open>t1 < t2 < t3\<close> and \<open>n \<ge> 3\<close> the answer
  is the third, the second, the first. The order among rows with the same \<open>opened_at\<close> is
  not fixed.
\<close>

theorem get_recent_trades_ordered:
  assumes "mset scan = mset db" and "0 \<le> n" and "n < 2 ^ 63"
  shows "\<exists>res. get_recent_trades scan n = Inr res \<and>
         length res = min (nat n) (length db) \<and>
         sorted_wrt (\<lambda>a b. desc_key b \<le> desc_key a) res \<and>
         mset res \<subseteq># mset db \<and>
         (\<forall>x \<in> set res. \<forall>y \<in># mset db - mset res. desc_key y \<le> desc_key x) \<and>
         (\<forall>r1 r2 r3 t1 t2 t3.
            mset db = {#r1, r2, r3#} \<and> opened_at r1 = Some t1 \<and> opened_at r2 = Some t2 \<and>
            opened_at r3 = Some t3 \<and> t1 < t2 \<and> t2 < t3 \<and> 3 \<le> n \<longrightarrow>
            res = [r3, r2, r1])"
proof -
  let ?full = "order_by_desc scan"
  let ?res = "take (nat n) ?full"
  have g: "get_recent_trades scan n = Inr ?res"
    using assms(2,3) by (simp add: get_recent_trades_def sqlite_integer_def)
  have len: "length db = length scan"
    using assms(1) by (metis size_mset)
  have a: "length ?res = min (nat n) (length db)"
    by (simp add: length_order_by_desc len min.commute)
  have s: "sorted_wrt (\<lambda>a b. desc_key b \<le> desc_key a) (?res @ drop (nat n) ?full)"
    using sorted_order_by_desc [of scan] by simp
  have b: "sorted_wrt (\<lambda>a b. desc_key b \<le> desc_key a) ?res"
    using s by (simp only: sorted_wrt_append)
  have split: "mset db = mset ?res + mset (drop (nat n) ?full)"
    using assms(1) mset_order_by_desc [of scan]
    by (metis append_take_drop_id mset_append)
  have c: "mset ?res \<subseteq># mset db"
    by (simp only: split mset_subset_eq_add_left)
  have rest: "mset db - mset ?res = mset (drop (nat n) ?full)"
    by (simp only: split add_diff_cancel_left')
  have "\<forall>x \<in> set ?res. \<forall>y \<in> set (drop (nat n) ?full). desc_key y \<le> desc_key x"
    using s by (simp only: sorted_wrt_append) blast
  then have d: "\<forall>x \<in> set ?res. \<forall>y \<in># mset db - mset ?res. desc_key y \<le> desc_key x"
    by (simp only: rest set_mset_mset)
  have e: "?res = [r3, r2, r1]"
    if "mset db = {#r1, r2, r3#} \<and> opened_at r1 = Some t1 \<and> opened_at r2 = Some t2 \<and>
            opened_at r3 = Some t3 \<and> t1 < t2 \<and> t2 < t3 \<and> 3 \<le> n" for r1 r2 r3 t1 t2 t3
  proof -
    have "order_by_desc scan = [r3, r2, r1]"
      using that assms(1) by (intro order_by_desc_three) (simp_all add: desc_key_less)
    moreover from that have "3 \<le> n" by blast
    then have "3 \<le> nat n" by simp
    ultimately show ?thesis by simp
  qed
  from g a b c d e show ?thesis by blast
qed

theorem get_recent_trades_ordered_witness:
  "mset [a_trade ''t2'' ''open'' 20, a_trade ''t3'' ''open'' 30, a_trade ''t1'' ''open'' 10]
     = mset [a_trade ''t1'' ''open'' 10, a_trade ''t2'' ''open'' 20, a_trade ''t3'' ''open'' 30] \<and>
   (0::int) \<le> 3 \<and> (3::int) < 2 ^ 63 \<and>
   get_recent_trades [a_trade ''t2'' ''open'' 20, a_trade ''t3'' ''open'' 30, a_trade ''t1'' ''open'' 10] 3
     = Inr [a_trade ''t3'' ''open'' 30, a_trade ''t2'' ''open'' 20, a_trade ''t1'' ''open'' 10]"
proof -
  have h1: "mset [a_trade ''t2'' ''open'' 20, a_trade ''t3'' ''open'' 30, a_trade ''t1'' ''open'' 10]
     = mset [a_trade ''t1'' ''open'' 10, a_trade ''t2'' ''open'' 20, a_trade ''t3'' ''open'' 30]"
    by simp
  have h2: "(0::int) \<le> 3" by simp
  have h3: "(3::int) < 2 ^ 63" by simp
  have p: "mset [a_trade ''t1'' ''open'' 10, a_trade ''t2'' ''open'' 20, a_trade ''t3'' ''open'' 30]
             = {#a_trade ''t1'' ''open'' 10, a_trade ''t2'' ''open'' 20, a_trade ''t3'' ''open'' 30#} \<and>
           opened_at (a_trade ''t1'' ''open'' 10) = Some 10 \<and>
           opened_at (a_trade ''t2'' ''open'' 20) = Some 20 \<and>
           opened_at (a_trade ''t3'' ''open'' 30) = Some 30 \<and> (10::nat) < 20 \<and> (20::nat) < 30 \<and> (3::int) \<le> 3"
    by (simp add: a_trade_def)
  from get_recent_trades_ordered [OF h1 h2 h3] obtain res where
    r: "get_recent_trades [a_trade ''t2'' ''open'' 20, a_trade ''t3'' ''open'' 30, a_trade ''t1'' ''open'' 10] 3
          = Inr res"
    and t: "\<forall>r1 r2 r3 t1 t2 t3.
            mset [a_trade ''t1'' ''open'' 10, a_trade ''t2'' ''open'' 20, a_trade ''t3'' ''open'' 30]
              = {#r1, r2, r3#} \<and> opened_at r1 = Some t1 \<and> opened_at r2 = Some t2 \<and>
            opened_at r3 = Some t3 \<and> t1 < t2 \<and> t2 < t3 \<and> (3::int) \<le> 3 \<longrightarrow>
            res = [r3, r2, r1]"
    by blast
  have "res = [a_trade ''t3'' ''open'' 30, a_trade ''t2'' ''open'' 20, a_trade ''t1'' ''open'' 10]"
    using t [rule_format, OF p] .
  with r h1 h2 h3 show ?thesis by (intro conjI) simp_all
qed

section \<open>Properties of schema initialisation\<close>

lemma create_all_idem: "create_all (create_all ts) = create_all ts"
  by (simp add: create_all_def)

lemma create_all_has: "''trades'' \<in> set (create_all ts) \<and> ''bot_settings'' \<in> set (create_all ts)"
  by (simp add: create_all_def)

lemma init_db_with_directory:
  assumes "data_entry d = Directory"
  shows "fst (init_db config d) = None"
    and "data_entry (snd (init_db config d)) = Directory"
    and "''trades'' \<in> set (tables (snd (init_db config d)))"
    and "''bot_settings'' \<in> set (tables (snd (init_db config d)))"
    and "init_db config (snd (init_db config d)) = (None, snd (init_db config d))"
  using assms create_all_has [of "tables d"]
  by (simp_all add: init_db_def Let_def create_all_idem)

text \<open>
  C9. Started with the database of the Render configuration and no directory \<open>data\<close>,
  \<open>init_db\<close> raises when it opens the database, before \<open>os.makedirs\<close> is reached: the
  schema is not created and the directory still does not exist.
\<close>

theorem init_db_missing_directory:
  "init_db (config\<lparr>RENDER := True\<rparr>) \<lparr>data_entry = Absent, tables = []\<rparr>
     = (Some OperationalError, \<lparr>data_entry = Absent, tables = []\<rparr>)"
  by (simp add: init_db_def database_url_def database_in_data_dir_def)

section \<open>Properties of the supervisor\<close>













lemma asyncio_run_started:
  assumes "run_try w b = (ev, None)"
  shows "asyncio_run w b schedule =
           (ev @ fst (event_loop (engine_stop w) [Main_sleeping] schedule),
            snd (event_loop (engine_stop w) [Main_sleeping] schedule))"
  using assms by (simp add: asyncio_run_def run_def split: prod.splits)











lemma fatal_error_exits_zero:
  assumes "run_try w b = (ev, Some e)" and "notify_crashed w = Returns"
    and "engine_stop w = (0, Returns)"
  shows "snd (run w b) = Abrupt (SystemExit 0)"
  using assms by (simp add: run_def Let_def shutdown_def await_stop_def)

text \<open>
  C3. The engine fails to start: the error is logged as fatal, \<open>shutdown\<close> runs, and the
  process exits with code 0.
\<close>

theorem fatal_error_exit_code:
  "main (a_world (Raises ''boom'') (0, Returns)) [] =
     ([Constructed EngineLoop, Constructed Notifier, Log INFO Banner_rule, Log INFO Starting_bot,
       Log INFO (Environment_line True), Log INFO (Symbol_line ''BTCUSDT''),
       Log INFO (Leverage_line 5), Log INFO Banner_rule, Start HealthEndpoint,
       Log INFO (Health_check_started 8080), Init_db, Log WARNING Telegram_not_configured,
       Start EngineLoop, Log ERROR (Fatal_error ''boom''), Log INFO Shutting_down,
       Stop EngineLoop, Log INFO Shutdown_complete],
      Exit_code 0)"
  by (simp add: main_def ScalpingBot_init_def a_world_def load_dotenv_def from_env_def
      class_defaults_def getenv_def getenv_int_def getenv_float_def missing_vars_def truthy_def
      asyncio_run_def run_def run_try_def notifications_configured_def shutdown_def
      await_stop_def lower_is_true_def ascii_lower_def)

lemma starts_init_missing:
  assumes "missing_vars (load_dotenv w) \<noteq> []"
  shows "\<exists>ev e. ScalpingBot_init w = (ev, Inl e) \<and> starts ev = [] \<and>
           (e = SystemExit 1 \<or> (\<exists>m. e = Exception m))"
  using assms
  by (simp add: ScalpingBot_init_def Let_def starts_def split: sum.splits)

text \<open>
  C8. When \<open>BYBIT_API_KEY\<close> or \<open>BYBIT_API_SECRET\<close> is unset or empty once the \<open>.env\<close>
  file is loaded, the process exits with status 1 and no subsystem has been constructed
  or started.
\<close>

theorem missing_credentials_exit:
  assumes "\<not> truthy (load_dotenv w ''BYBIT_API_KEY'') \<or> \<not> truthy (load_dotenv w ''BYBIT_API_SECRET'')"
  shows "snd (main w schedule) = Exit_code 1 \<and> starts (fst (main w schedule)) = []"
proof -
  have "missing_vars (load_dotenv w) \<noteq> []"
    using assms by (auto simp: missing_vars_def)
  then obtain ev e where i: "ScalpingBot_init w = (ev, Inl e)" "starts ev = []"
      "e = SystemExit 1 \<or> (\<exists>m. e = Exception m)"
    using starts_init_missing by blast
  from i(3) show ?thesis
  proof
    assume "e = SystemExit 1"
    with i show ?thesis by (simp add: main_def)
  next
    assume "\<exists>m. e = Exception m"
    then obtain m where "e = Exception m" ..
    with i show ?thesis by (simp add: main_def starts_def)
  qed
qed

theorem missing_credentials_exit_witness:
  "load_dotenv ((a_world Returns (0, Returns))\<lparr>os_environ := Map.empty\<rparr>) ''BYBIT_API_KEY'' = None \<and>
   snd (main ((a_world Returns (0, Returns))\<lparr>os_environ := Map.empty\<rparr>) []) = Exit_code 1 \<and>
   starts (fst (main ((a_world Returns (0, Returns))\<lparr>os_environ := Map.empty\<rparr>) [])) = []"
proof -
  have n: "load_dotenv ((a_world Returns (0, Returns))\<lparr>os_environ := Map.empty\<rparr>) ''BYBIT_API_KEY'' = None"
    by (simp add: load_dotenv_def a_world_def)
  then have h: "\<not> truthy (load_dotenv ((a_world Returns (0, Returns))\<lparr>os_environ := Map.empty\<rparr>) ''BYBIT_API_KEY'') \<or>
    \<not> truthy (load_dotenv ((a_world Returns (0, Returns))\<lparr>os_environ := Map.empty\<rparr>) ''BYBIT_API_SECRET'')"
    by (simp add: truthy_def)
  from missing_credentials_exit [OF h, of "[]"] n show ?thesis by (intro conjI) simp_all
qed

end
